theory Spec2Isabelle
  imports Main
begin

section \<open>The snake step function of \<open>public/snake_Logic.py\<close>\<close>

text \<open>
  The module holds one function, \<^verbatim>\<open>move_snake(snake, direction, food, grid_size=20)\<close>.
  The direction is the string the function compares against; the snake is a sequence of
  positions, head first. The function returns \<^verbatim>\<open>None\<close> on a collision and a
  dictionary with the keys \<^verbatim>\<open>"snake"\<close> and \<^verbatim>\<open>"ate"\<close> otherwise.
\<close>

subsection \<open>Data\<close>

text \<open>A position of the specification: a pair of unbounded integers.\<close>

type_synonym position = "int \<times> int"

text \<open>
  The Python object that holds a position. The function unpacks the head with
  \<^verbatim>\<open>head_x, head_y = snake_list[0]\<close>, which takes any two-element sequence, so the
  caller may pass lists or tuples. It builds the new head as the list
  \<^verbatim>\<open>[head_x, head_y]\<close>. Python's \<^verbatim>\<open>==\<close> holds between two lists, or two tuples,
  with equal elements, and never between a list and a tuple: it is the equality of this
  datatype.
\<close>

datatype py_seq = PyList int int | PyTuple int int

fun coords :: "py_seq \<Rightarrow> position" where
  "coords (PyList x y) = (x, y)"
| "coords (PyTuple x y) = (x, y)"

fun is_list :: "py_seq \<Rightarrow> bool" where
  "is_list (PyList x y) = True"
| "is_list (PyTuple x y) = False"

text \<open>Line 12, \<^verbatim>\<open>[head_x, head_y]\<close>: the list of two coordinates.\<close>

fun as_list :: "position \<Rightarrow> py_seq" where
  "as_list (x, y) = PyList x y"

text \<open>Line 25, \<^verbatim>\<open>list(food)\<close>: the list with the elements of a sequence.\<close>

definition py_list :: "py_seq \<Rightarrow> py_seq" where
  "py_list s = as_list (coords s)"

datatype py_error = IndexError

record move_result =
  snake :: "py_seq list"
  ate :: bool

text \<open>
  The three outcomes of a call: an exception, \<^verbatim>\<open>None\<close>, or the dictionary.
\<close>

type_synonym outcome = "py_error + move_result option"

abbreviation Collision :: outcome where
  "Collision \<equiv> Inr None"

abbreviation Moved :: "py_seq list \<Rightarrow> bool \<Rightarrow> outcome" where
  "Moved body a \<equiv> Inr (Some \<lparr>snake = body, ate = a\<rparr>)"

subsection \<open>List accesses that can raise\<close>

text \<open>\<^verbatim>\<open>xs[0]\<close> raises IndexError on the empty list.\<close>

definition index0 :: "'a list \<Rightarrow> py_error + 'a" where
  "index0 xs = (case xs of [] \<Rightarrow> Inl IndexError | x # _ \<Rightarrow> Inr x)"

text \<open>
  \<^verbatim>\<open>xs.pop()\<close> raises IndexError on the empty list and otherwise removes the last
  element; the function discards the popped value, so only the remaining list is kept.
\<close>

definition pop :: "'a list \<Rightarrow> py_error + 'a list" where
  "pop xs = (case xs of [] \<Rightarrow> Inl IndexError | _ # _ \<Rightarrow> Inr (butlast xs))"

subsection \<open>The function\<close>

text \<open>
  Lines 7 to 10: the \<^verbatim>\<open>if\<close>/\<^verbatim>\<open>elif\<close> chain on the direction, with no
  \<^verbatim>\<open>else\<close>: an unrecognised direction leaves both coordinates as they are.
\<close>

definition advance :: "string \<Rightarrow> position \<Rightarrow> position" where
  "advance direction h =
     (case h of (head_x, head_y) \<Rightarrow>
        if direction = ''UP'' then (head_x, head_y - 1)
        else if direction = ''DOWN'' then (head_x, head_y + 1)
        else if direction = ''LEFT'' then (head_x - 1, head_y)
        else if direction = ''RIGHT'' then (head_x + 1, head_y)
        else (head_x, head_y))"

text \<open>Line 15: the wall test on the advanced coordinates.\<close>

definition hits_wall :: "position \<Rightarrow> int \<Rightarrow> bool" where
  "hits_wall c grid_size =
     (case c of (head_x, head_y) \<Rightarrow>
        head_x < 0 \<or> head_x \<ge> grid_size \<or> head_y < 0 \<or> head_y \<ge> grid_size)"

text \<open>
  The whole function. \<open>snake_list\<close> is the copy \<^verbatim>\<open>list(snake)\<close>, which has the
  elements of the argument, the same objects in the same order: the elements themselves
  are not converted. The self test of line 19, \<^verbatim>\<open>new_head in snake_list\<close>, compares
  the list \<open>new_head\<close> with each element by \<^verbatim>\<open>==\<close>; the food test of line 25
  compares it with \<^verbatim>\<open>list(food)\<close>.
\<close>

definition move_snake :: "py_seq list \<Rightarrow> string \<Rightarrow> py_seq \<Rightarrow> int \<Rightarrow> outcome" where
  "move_snake snake_list direction food grid_size =
     (case index0 snake_list of
        Inl e \<Rightarrow> Inl e
      | Inr h \<Rightarrow>
          let c = advance direction (coords h);
              new_head = as_list c in
          if hits_wall c grid_size then Collision
          else if new_head \<in> set snake_list then Collision
          else
            let new_snake = [new_head] @ snake_list in
            if new_head = py_list food then Moved new_snake True
            else
              (case pop new_snake of
                 Inl e \<Rightarrow> Inl e
               | Inr popped \<Rightarrow> Moved popped False))"

text \<open>The default of the last parameter.\<close>

definition move_snake_default :: "py_seq list \<Rightarrow> string \<Rightarrow> py_seq \<Rightarrow> outcome" where
  "move_snake_default snake_list direction food = move_snake snake_list direction food 20"

subsection \<open>Notions of the specification\<close>

text \<open>The four recognised directions.\<close>

definition directions :: "string set" where
  "directions = {''UP'', ''DOWN'', ''LEFT'', ''RIGHT''}"

text \<open>
  The unit step of a direction as the specification gives it: UP is \<open>y - 1\<close>, DOWN is
  \<open>y + 1\<close>, LEFT is \<open>x - 1\<close>, RIGHT is \<open>x + 1\<close>.
\<close>

definition unit_step :: "string \<Rightarrow> position" where
  "unit_step direction =
     (if direction = ''UP'' then (0, -1)
      else if direction = ''DOWN'' then (0, 1)
      else if direction = ''LEFT'' then (-1, 0)
      else if direction = ''RIGHT'' then (1, 0)
      else (0, 0))"

definition offset :: "position \<Rightarrow> position \<Rightarrow> position" where
  "offset p d = (fst p + fst d, snd p + snd d)"

text \<open>Inside the grid: both coordinates in \<open>[0, grid_size)\<close>.\<close>

definition inside :: "position \<Rightarrow> int \<Rightarrow> bool" where
  "inside p grid_size = (0 \<le> fst p \<and> fst p < grid_size \<and> 0 \<le> snd p \<and> snd p < grid_size)"

text \<open>The positions a body occupies, head first.\<close>

definition cells :: "py_seq list \<Rightarrow> position list" where
  "cells body = map coords body"

text \<open>
  Two positions one unit step apart: they differ by one in exactly one coordinate.
\<close>

definition adjacent :: "position \<Rightarrow> position \<Rightarrow> bool" where
  "adjacent p q = (\<bar>fst p - fst q\<bar> + \<bar>snd p - snd q\<bar> = 1)"

text \<open>Each consecutive pair of positions is one unit step apart.\<close>

fun unit_steps :: "position list \<Rightarrow> bool" where
  "unit_steps [] = True"
| "unit_steps [p] = True"
| "unit_steps (p # q # r) = (adjacent p q \<and> unit_steps (q # r))"

subsection \<open>The function on a store of list objects\<close>

text \<open>
  The function works on list objects: \<^verbatim>\<open>list(snake)\<close> creates a new list,
  \<^verbatim>\<open>[new_head] + snake_list\<close> creates another one, and \<^verbatim>\<open>new_snake.pop()\<close>
  changes that last one in place. The store holds the list objects, a reference is an
  index into it, and a new object goes to the end. The position objects are never
  written to by the function and stay values.
\<close>

type_synonym heap = "py_seq list list"

type_synonym ref = nat

definition alloc :: "heap \<Rightarrow> py_seq list \<Rightarrow> heap \<times> ref" where
  "alloc h xs = (h @ [xs], length h)"

text \<open>What a call returns on the store: an exception, \<^verbatim>\<open>None\<close>, or the dictionary
  holding a reference to the new list and the flag.\<close>

type_synonym heap_outcome = "py_error + (ref \<times> bool) option"

definition move_snake_heap ::
    "heap \<Rightarrow> ref \<Rightarrow> string \<Rightarrow> py_seq \<Rightarrow> int \<Rightarrow> heap \<times> heap_outcome" where
  "move_snake_heap h snake_ref direction food grid_size =
     (let (h1, snake_list) = alloc h (h ! snake_ref) in
      case index0 (h1 ! snake_list) of
        Inl e \<Rightarrow> (h1, Inl e)
      | Inr hd_pos \<Rightarrow>
          let c = advance direction (coords hd_pos);
              new_head = as_list c in
          if hits_wall c grid_size then (h1, Inr None)
          else if new_head \<in> set (h1 ! snake_list) then (h1, Inr None)
          else
            let (h2, new_snake) = alloc h1 ([new_head] @ (h1 ! snake_list)) in
            if new_head = py_list food then (h2, Inr (Some (new_snake, True)))
            else
              (case pop (h2 ! new_snake) of
                 Inl e \<Rightarrow> (h2, Inl e)
               | Inr popped \<Rightarrow> (h2[new_snake := popped], Inr (Some (new_snake, False)))))"

text \<open>Reading a returned reference in a store gives the outcome as a value.\<close>

fun deref :: "heap \<Rightarrow> heap_outcome \<Rightarrow> outcome" where
  "deref h (Inl e) = Inl e"
| "deref h (Inr None) = Collision"
| "deref h (Inr (Some (r, a))) = Moved (h ! r) a"

section \<open>Basic facts\<close>

lemma advance_offset: "advance direction h = offset h (unit_step direction)"
  by (cases h) (simp add: advance_def offset_def unit_step_def)

lemma hits_wall_inside: "hits_wall p grid_size \<longleftrightarrow> \<not> inside p grid_size"
  by (cases p) (auto simp: hits_wall_def inside_def)

lemma coords_as_list: "coords (as_list c) = c"
  by (cases c) simp

lemma as_list_inject: "as_list c = as_list d \<longleftrightarrow> c = d"
  by (cases c, cases d) simp

lemma as_list_py_list: "as_list c = py_list food \<longleftrightarrow> c = coords food"
  by (simp add: py_list_def as_list_inject)

lemma as_list_member_cells: "as_list c \<in> set body \<Longrightarrow> c \<in> set (cells body)"
  unfolding cells_def using coords_as_list by (metis image_eqI set_map)

lemma move_snake_Cons:
  "move_snake (h # t) direction food grid_size =
     (let c = advance direction (coords h) in
      if hits_wall c grid_size \<or> as_list c \<in> set (h # t) then Collision
      else if c = coords food then Moved (as_list c # h # t) True
      else Moved (as_list c # butlast (h # t)) False)"
  by (simp add: move_snake_def index0_def pop_def Let_def as_list_py_list)

lemma move_snake_Nil: "move_snake [] direction food grid_size = Inl IndexError"
  by (simp add: move_snake_def index0_def)

lemma spec_examples:
  "move_snake_default [PyList 5 5, PyList 5 6, PyList 5 7] ''UP'' (PyList 5 3)
     = Moved [PyList 5 4, PyList 5 5, PyList 5 6] False"
  "move_snake_default [PyList 5 4, PyList 5 5, PyList 5 6] ''UP'' (PyList 5 3)
     = Moved [PyList 5 3, PyList 5 4, PyList 5 5, PyList 5 6] True"
  "move_snake_default [PyList 0 0, PyList 0 1] ''UP'' food = Collision"
  by (simp_all add: move_snake_default_def move_snake_Cons advance_def hits_wall_def)

lemma move_snake_hd:
  assumes "snake_list \<noteq> []"
  shows "move_snake snake_list direction food grid_size =
     (let c = advance direction (coords (hd snake_list)) in
      if hits_wall c grid_size \<or> as_list c \<in> set snake_list then Collision
      else if c = coords food then Moved (as_list c # snake_list) True
      else Moved (as_list c # butlast snake_list) False)"
proof -
  from assms obtain h t where "snake_list = h # t"
    by (cases snake_list) auto
  then show ?thesis
    by (simp only: move_snake_Cons list.sel)
qed

lemma unit_step_adjacent:
  "direction \<in> directions \<Longrightarrow> adjacent (offset h (unit_step direction)) h"
  by (auto simp: directions_def adjacent_def offset_def unit_step_def)

lemma unit_steps_butlast: "unit_steps xs \<Longrightarrow> unit_steps (butlast xs)"
  by (induction xs rule: unit_steps.induct) (auto split: if_splits)

lemma unit_steps_Cons:
  "xs \<noteq> [] \<Longrightarrow> unit_steps (p # xs) \<longleftrightarrow> adjacent p (hd xs) \<and> unit_steps xs"
  by (cases xs) auto

lemma unit_steps_Cons_butlast:
  assumes "xs \<noteq> []" and "adjacent p (hd xs)" and "unit_steps xs"
  shows "unit_steps (p # butlast xs)"
proof (cases "butlast xs")
  case Nil
  then show ?thesis by simp
next
  case (Cons q r)
  then obtain t where "xs = q # t"
    using assms(1) by (cases xs) (auto split: if_splits)
  then have "hd (butlast xs) = hd xs"
    using Cons by simp
  moreover have "butlast xs \<noteq> []"
    using Cons by simp
  ultimately show ?thesis
    using assms(2,3) by (simp add: unit_steps_Cons unit_steps_butlast)
qed

lemma advance_unrecognised: "direction \<notin> directions \<Longrightarrow> advance direction h = h"
  by (cases h) (simp add: advance_def directions_def)

lemma advance_adjacent: "direction \<in> directions \<Longrightarrow> adjacent (advance direction h) h"
  by (simp add: advance_offset unit_step_adjacent)

lemma move_snake_heap_eq:
  "move_snake_heap h a direction food grid_size =
     (case h ! a of
        [] \<Rightarrow> (h @ [[]], Inl IndexError)
      | hd_pos # t \<Rightarrow>
          let c = advance direction (coords hd_pos) in
          if hits_wall c grid_size \<or> as_list c \<in> set (h ! a)
          then (h @ [h ! a], Inr None)
          else if c = coords food
          then (h @ [h ! a, as_list c # h ! a], Inr (Some (length h + 1, True)))
          else (h @ [h ! a, as_list c # butlast (h ! a)], Inr (Some (length h + 1, False))))"
  by (simp add: move_snake_heap_def alloc_def index0_def pop_def Let_def nth_append
      list_update_append as_list_py_list split: list.split)

lemma move_snake_heap_frame:
  assumes "move_snake_heap h a direction food grid_size = (h', r)"
  shows "take (length h) h' = h"
  using assms unfolding move_snake_heap_eq
  by (auto simp: Let_def split: list.splits if_splits)

lemma move_snake_heap_ref_valid:
  assumes "move_snake_heap h a direction food grid_size = (h', Inr (Some (b, flag)))"
  shows "b < length h'"
  using assms unfolding move_snake_heap_eq
  by (auto simp: Let_def split: list.splits if_splits)

lemma move_snake_heap_value:
  assumes "move_snake_heap h a direction food grid_size = (h', r)"
  shows "deref h' r = move_snake (h ! a) direction food grid_size"
proof (cases "h ! a")
  case Nil
  then show ?thesis
    using assms unfolding move_snake_heap_eq by (auto simp: move_snake_Nil)
next
  case (Cons p t)
  then show ?thesis
    using assms unfolding move_snake_heap_eq
    by (auto simp: move_snake_Cons Let_def nth_append split: if_splits)
qed

lemma take_nth_eq: "take n ys = xs \<Longrightarrow> b < length xs \<Longrightarrow> ys ! b = xs ! b"
  by (metis length_take min_less_iff_conj nth_take)

lemma deref_frame:
  assumes "take (length h) h' = h"
    and "\<And>b flag. r = Inr (Some (b, flag)) \<Longrightarrow> b < length h"
  shows "deref h' r = deref h r"
proof (cases r)
  case (Inl e)
  then show ?thesis by simp
next
  case (Inr v)
  show ?thesis
  proof (cases v)
    case None
    with Inr show ?thesis by simp
  next
    case (Some bf)
    obtain b flag where "bf = (b, flag)"
      by (cases bf)
    with Inr Some have r: "r = Inr (Some (b, flag))"
      by simp
    then have "b < length h"
      by (rule assms(2))
    then have "h' ! b = h ! b"
      using assms(1) by (rule take_nth_eq [rotated])
    then show ?thesis
      by (simp add: r)
  qed
qed

lemma is_list_as_list: "is_list p \<Longrightarrow> as_list (coords p) = p"
  by (cases p) simp_all

lemma cells_member_as_list:
  assumes "\<forall>p\<in>set body. is_list p" and "c \<in> set (cells body)"
  shows "as_list c \<in> set body"
proof -
  from assms(2) obtain p where p: "p \<in> set body" "coords p = c"
    unfolding cells_def by auto
  then have "as_list c = p"
    using assms(1) is_list_as_list by blast
  then show ?thesis
    using p(1) by simp
qed

section \<open>The step on a free cell\<close>

text \<open>
  C1. For a non-empty body, a direction among UP, DOWN, LEFT and RIGHT, a food position
  and a positive grid size: when the new head, the old head offset by one unit in the
  direction, is inside the grid in both coordinates, is not in the body before the move
  and is not the food, the function returns the dictionary with \<open>ate\<close> false and the
  body made of the new head followed by the old body without its last element. That body
  is as long as the old one, and its head is the old head moved by exactly one unit step
  in the direction given. This holds whether the caller's positions are lists or tuples.
\<close>

theorem move_snake_plain_step:
  assumes "snake_list \<noteq> []"
    and "direction \<in> directions"
    and "0 < grid_size"
    and "new_head = offset (coords (hd snake_list)) (unit_step direction)"
    and "inside new_head grid_size"
    and "new_head \<notin> set (cells snake_list)"
    and "new_head \<noteq> coords food"
  shows "\<exists>body. move_snake snake_list direction food grid_size = Moved body False
           \<and> body = as_list new_head # butlast snake_list
           \<and> length body = length snake_list
           \<and> coords (hd body) = offset (coords (hd snake_list)) (unit_step direction)
           \<and> adjacent (coords (hd body)) (coords (hd snake_list))"
proof -
  have nh: "advance direction (coords (hd snake_list)) = new_head"
    using assms(4) by (simp add: advance_offset)
  have "as_list new_head \<notin> set snake_list"
    using assms(6) as_list_member_cells by blast
  then have "move_snake snake_list direction food grid_size
          = Moved (as_list new_head # butlast snake_list) False"
    using assms(5,7) by (simp add: move_snake_hd [OF assms(1)] nh hits_wall_inside)
  moreover have "length (as_list new_head # butlast snake_list) = length snake_list"
    using assms(1) by simp
  moreover have "adjacent new_head (coords (hd snake_list))"
    using assms(2,4) by (simp add: unit_step_adjacent)
  ultimately show ?thesis
    using assms(4) by (simp add: coords_as_list)
qed

theorem move_snake_plain_step_witness:
  "[PyTuple 5 5, PyTuple 5 6, PyTuple 5 7] \<noteq> []
   \<and> ''UP'' \<in> directions
   \<and> (0::int) < 20
   \<and> (5, 4) = offset (coords (hd [PyTuple 5 5, PyTuple 5 6, PyTuple 5 7])) (unit_step ''UP'')
   \<and> inside (5, 4) 20
   \<and> (5, 4) \<notin> set (cells [PyTuple 5 5, PyTuple 5 6, PyTuple 5 7])
   \<and> (5, 4) \<noteq> coords (PyTuple 5 3)
   \<and> move_snake [PyTuple 5 5, PyTuple 5 6, PyTuple 5 7] ''UP'' (PyTuple 5 3) 20
       = Moved [PyList 5 4, PyTuple 5 5, PyTuple 5 6] False"
  using move_snake_plain_step
    [of "[PyTuple 5 5, PyTuple 5 6, PyTuple 5 7]" "''UP''" 20 "(5, 4)" "PyTuple 5 3"]
  by (simp add: directions_def offset_def unit_step_def inside_def cells_def)

section \<open>Collisions\<close>

text \<open>
  C2. For a non-empty body and any direction, food and grid size: when the new head the
  function computes has \<open>x < 0\<close>, \<open>x \<ge> grid_size\<close>, \<open>y < 0\<close> or \<open>y \<ge> grid_size\<close>,
  the function returns \<^verbatim>\<open>None\<close>, the collision result, and no new body.
\<close>

theorem move_snake_wall_collision:
  assumes "snake_list \<noteq> []"
    and "(x, y) = advance direction (coords (hd snake_list))"
    and "x < 0 \<or> x \<ge> grid_size \<or> y < 0 \<or> y \<ge> grid_size"
  shows "move_snake snake_list direction food grid_size = Collision"
proof -
  have "hits_wall (advance direction (coords (hd snake_list))) grid_size"
    using assms(3) unfolding assms(2) [symmetric] by (simp add: hits_wall_def)
  then show ?thesis
    by (simp add: move_snake_hd [OF assms(1)])
qed

theorem move_snake_wall_collision_witness:
  "[PyTuple 0 0, PyTuple 0 1] \<noteq> []
   \<and> (0, -1) = advance ''UP'' (coords (hd [PyTuple 0 0, PyTuple 0 1]))
   \<and> ((0::int) < 0 \<or> (0::int) \<ge> 20 \<or> (-1::int) < 0 \<or> (-1::int) \<ge> 20)
   \<and> move_snake [PyTuple 0 0, PyTuple 0 1] ''UP'' (PyTuple 5 3) 20 = Collision"
  using move_snake_wall_collision
    [of "[PyTuple 0 0, PyTuple 0 1]" 0 "-1" "''UP''" 20 "PyTuple 5 3"]
  by (simp add: advance_def)

text \<open>
  The self test of line 19 fires exactly on an element that is a list with the
  coordinates of the new head.
\<close>

lemma self_collision_on_equal_list:
  assumes "snake_list \<noteq> []"
    and "as_list (advance direction (coords (hd snake_list))) \<in> set snake_list"
  shows "move_snake snake_list direction food grid_size = Collision"
  using assms(2) by (simp add: move_snake_hd [OF assms(1)])

lemma self_collision_when_lists:
  assumes "snake_list \<noteq> []"
    and "\<forall>p\<in>set snake_list. is_list p"
    and "advance direction (coords (hd snake_list)) \<in> set (cells snake_list)"
  shows "move_snake snake_list direction food grid_size = Collision"
  using assms(1) cells_member_as_list [OF assms(2,3)] by (rule self_collision_on_equal_list)

text \<open>
  C3. The claim: for a non-empty body, when the new head the function computes is one of
  the positions of the body before the move, the current tail cell included, the function
  returns the collision result. The function does so when the positions of the body are
  lists (\<open>self_collision_when_lists\<close>). It does not when they are tuples: line 19
  compares the list \<open>new_head\<close> with the elements of the snake as the caller passed
  them, and a list never equals a tuple, while line 25 converts the food with
  \<^verbatim>\<open>list(food)\<close> before comparing. On the body \<open>(5,5), (5,6), (4,6), (4,5)\<close> moving
  LEFT the new head \<open>(4,5)\<close> is the tail cell; with tuples the function returns a moved
  snake, with lists the collision result.
\<close>

theorem move_snake_self_collision_missed_on_tuples:
  "advance ''LEFT'' (coords (hd [PyTuple 5 5, PyTuple 5 6, PyTuple 4 6, PyTuple 4 5])) = (4, 5)
   \<and> (4, 5) \<in> set (cells [PyTuple 5 5, PyTuple 5 6, PyTuple 4 6, PyTuple 4 5])
   \<and> move_snake [PyTuple 5 5, PyTuple 5 6, PyTuple 4 6, PyTuple 4 5] ''LEFT'' (PyTuple 9 9) 20
       = Moved [PyList 4 5, PyTuple 5 5, PyTuple 5 6, PyTuple 4 6] False
   \<and> move_snake [PyList 5 5, PyList 5 6, PyList 4 6, PyList 4 5] ''LEFT'' (PyTuple 9 9) 20
       = Collision"
  by (simp add: move_snake_Cons advance_def hits_wall_def cells_def)

section \<open>The growth step\<close>

text \<open>
  C4. For a non-empty body and any direction, food and grid size: when the new head the
  function computes is inside the grid, is not in the body before the move and equals
  the food position, the function returns the dictionary with \<open>ate\<close> true and the body
  made of the new head followed by the whole old body. The returned body is one longer
  than the old one and the old tail is kept.
\<close>

theorem move_snake_growth_step:
  assumes "snake_list \<noteq> []"
    and "new_head = advance direction (coords (hd snake_list))"
    and "inside new_head grid_size"
    and "new_head \<notin> set (cells snake_list)"
    and "new_head = coords food"
  shows "\<exists>body. move_snake snake_list direction food grid_size = Moved body True
           \<and> body = as_list new_head # snake_list
           \<and> length body = length snake_list + 1
           \<and> tl body = snake_list
           \<and> last body = last snake_list"
proof -
  have "as_list new_head \<notin> set snake_list"
    using assms(4) as_list_member_cells by blast
  then show ?thesis
    using assms(1,3,5) unfolding assms(2)
    by (simp add: move_snake_hd [OF assms(1)] hits_wall_inside)
qed

theorem move_snake_growth_step_witness:
  "[PyTuple 5 4, PyTuple 5 5, PyTuple 5 6] \<noteq> []
   \<and> (5, 3) = advance ''UP'' (coords (hd [PyTuple 5 4, PyTuple 5 5, PyTuple 5 6]))
   \<and> inside (5, 3) 20
   \<and> (5, 3) \<notin> set (cells [PyTuple 5 4, PyTuple 5 5, PyTuple 5 6])
   \<and> (5, 3) = coords (PyTuple 5 3)
   \<and> move_snake [PyTuple 5 4, PyTuple 5 5, PyTuple 5 6] ''UP'' (PyTuple 5 3) 20
       = Moved [PyList 5 3, PyTuple 5 4, PyTuple 5 5, PyTuple 5 6] True"
proof -
  have body: "[PyTuple 5 4, PyTuple 5 5, PyTuple 5 6] \<noteq> []"
    by simp
  have head: "(5, 3) = advance ''UP'' (coords (hd [PyTuple 5 4, PyTuple 5 5, PyTuple 5 6]))"
    by (simp add: advance_def)
  have grid: "inside (5, 3) 20"
    by (simp add: inside_def)
  have free: "(5, 3) \<notin> set (cells [PyTuple 5 4, PyTuple 5 5, PyTuple 5 6])"
    by (simp add: cells_def)
  have food: "(5, 3) = coords (PyTuple 5 3)"
    by simp
  from move_snake_growth_step [OF body head grid free food]
  have "move_snake [PyTuple 5 4, PyTuple 5 5, PyTuple 5 6] ''UP'' (PyTuple 5 3) 20
          = Moved [PyList 5 3, PyTuple 5 4, PyTuple 5 5, PyTuple 5 6] True"
    by simp
  with body head grid free food show ?thesis
    by blast
qed

section \<open>The outcomes of a call\<close>

text \<open>
  For a non-empty body the function returns the collision result exactly when the new
  head is outside the grid or the snake holds a list equal to it, a dictionary otherwise,
  and it raises nothing.
\<close>

lemma collision_iff_equal_list:
  assumes "snake_list \<noteq> []"
    and "c = advance direction (coords (hd snake_list))"
  shows "(move_snake snake_list direction food grid_size = Collision
            \<longleftrightarrow> \<not> inside c grid_size \<or> as_list c \<in> set snake_list)
       \<and> (\<not> (\<not> inside c grid_size \<or> as_list c \<in> set snake_list)
            \<longrightarrow> (\<exists>body a. move_snake snake_list direction food grid_size = Moved body a))
       \<and> (\<forall>e. move_snake snake_list direction food grid_size \<noteq> Inl e)"
  unfolding assms(2)
  by (auto simp: move_snake_hd [OF assms(1)] hits_wall_inside Let_def)

lemma collision_iff_when_lists:
  assumes "snake_list \<noteq> []"
    and "\<forall>p\<in>set snake_list. is_list p"
    and "c = advance direction (coords (hd snake_list))"
  shows "move_snake snake_list direction food grid_size = Collision
           \<longleftrightarrow> \<not> inside c grid_size \<or> c \<in> set (cells snake_list)"
  using collision_iff_equal_list [OF assms(1,3)] cells_member_as_list [OF assms(2)]
    as_list_member_cells by blast

text \<open>
  C5. The claim: the function returns the collision result if and only if the new head it
  computes is out of the grid bounds or is a position of the body before the move; on
  every other input with a non-empty body it returns a dictionary, and there is no other
  failure outcome. The function does so when the positions of the body are lists
  (\<open>collision_iff_when_lists\<close>). With tuples the "if" direction fails, by the
  comparison of line 19 between the list \<open>new_head\<close> and the unconverted elements of
  the snake: on the body \<open>(2,2), (2,3), (3,3), (3,2)\<close> moving RIGHT the new head
  \<open>(3,2)\<close> is inside the grid and is a position of the body, and the function returns
  a moved snake instead of the collision result.
\<close>

theorem move_snake_collision_iff_fails_on_tuples:
  "advance ''RIGHT'' (coords (hd [PyTuple 2 2, PyTuple 2 3, PyTuple 3 3, PyTuple 3 2])) = (3, 2)
   \<and> inside (3, 2) 20
   \<and> (3, 2) \<in> set (cells [PyTuple 2 2, PyTuple 2 3, PyTuple 3 3, PyTuple 3 2])
   \<and> move_snake [PyTuple 2 2, PyTuple 2 3, PyTuple 3 3, PyTuple 3 2] ''RIGHT'' (PyTuple 9 9) 20
       = Moved [PyList 3 2, PyTuple 2 2, PyTuple 2 3, PyTuple 3 3] False
   \<and> move_snake [PyTuple 2 2, PyTuple 2 3, PyTuple 3 3, PyTuple 3 2] ''RIGHT'' (PyTuple 9 9) 20
       \<noteq> Collision"
  by (simp add: move_snake_Cons advance_def hits_wall_def cells_def inside_def)

text \<open>
  C8. When the body is not empty, every list access of the function is in range: the
  read of the head at index 0 succeeds, and the removal of the last element of the
  candidate body succeeds whatever the new head is. So the function returns a value and
  reaches none of its error branches. The empty body is left out by the hypothesis.
\<close>

theorem move_snake_no_error_on_nonempty:
  assumes "snake_list \<noteq> []"
  shows "index0 snake_list = Inr (hd snake_list)
       \<and> (\<forall>new_head. pop ([new_head] @ snake_list) = Inr (new_head # butlast snake_list))
       \<and> (\<exists>r. move_snake snake_list direction food grid_size = Inr r)"
proof -
  from assms obtain h t where "snake_list = h # t"
    by (cases snake_list) auto
  then show ?thesis
    by (simp add: index0_def pop_def move_snake_Cons Let_def)
qed

theorem move_snake_no_error_on_nonempty_witness:
  "[PyTuple 5 5, PyTuple 5 6] \<noteq> []
   \<and> index0 [PyTuple 5 5, PyTuple 5 6] = Inr (PyTuple 5 5)
   \<and> pop ([PyList 5 4] @ [PyTuple 5 5, PyTuple 5 6]) = Inr [PyList 5 4, PyTuple 5 5]
   \<and> move_snake [PyTuple 5 5, PyTuple 5 6] ''UP'' (PyTuple 1 1) 20
       = Moved [PyList 5 4, PyTuple 5 5] False"
  using move_snake_no_error_on_nonempty
    [of "[PyTuple 5 5, PyTuple 5 6]" "''UP''" "PyTuple 1 1" 20]
  by (simp add: move_snake_Cons advance_def hits_wall_def)

section \<open>Unrecognised directions and empty grids\<close>

text \<open>
  With an unrecognised direction the coordinates of the new head are those of the
  current head; the function returns the collision result when the current head is a
  list.
\<close>

lemma unrecognised_direction_when_head_list:
  assumes "snake_list \<noteq> []"
    and "direction \<notin> directions"
    and "is_list (hd snake_list)"
  shows "advance direction (coords (hd snake_list)) = coords (hd snake_list)
       \<and> move_snake snake_list direction food grid_size = Collision"
proof -
  have same: "advance direction (coords (hd snake_list)) = coords (hd snake_list)"
    using assms(2) by (rule advance_unrecognised)
  have "as_list (coords (hd snake_list)) = hd snake_list"
    using assms(3) by (rule is_list_as_list)
  then have "as_list (advance direction (coords (hd snake_list))) \<in> set snake_list"
    using assms(1) same by simp
  with assms(1) have "move_snake snake_list direction food grid_size = Collision"
    by (rule self_collision_on_equal_list)
  with same show ?thesis
    by simp
qed

text \<open>
  C9. The claim: for a non-empty body, when the direction is none of UP, DOWN, LEFT and
  RIGHT, the new head the function computes equals the current head, which is in the body
  before the move, so the function returns the collision result rather than moving. The
  coordinates of the new head are indeed those of the current head, and the function
  returns the collision result when the head is a list
  (\<open>unrecognised_direction_when_head_list\<close>). When the head is a tuple, the list
  \<open>new_head\<close> does not equal it at line 19, and the function moves: on the body
  \<open>(5,5), (5,6)\<close> with the direction \<open>up\<close> it returns a snake that holds the head
  cell twice.
\<close>

theorem move_snake_unrecognised_direction_moves_on_tuples:
  "''up'' \<notin> directions
   \<and> advance ''up'' (coords (hd [PyTuple 5 5, PyTuple 5 6])) = coords (hd [PyTuple 5 5, PyTuple 5 6])
   \<and> move_snake [PyTuple 5 5, PyTuple 5 6] ''up'' (PyTuple 5 4) 20
       = Moved [PyList 5 5, PyTuple 5 5] False
   \<and> move_snake [PyList 5 5, PyList 5 6] ''up'' (PyTuple 5 4) 20 = Collision"
  by (simp add: move_snake_Cons advance_def hits_wall_def directions_def)

text \<open>
  C10. For a non-empty body and any direction and food: when the grid size is zero or
  negative, the function returns the collision result, because then the wall test
  \<open>x < 0 or x \<ge> grid_size or y < 0 or y \<ge> grid_size\<close> holds of every pair of integer
  coordinates: no integer coordinate can be within the bounds.
\<close>

theorem move_snake_empty_grid:
  assumes "snake_list \<noteq> []"
    and "grid_size \<le> 0"
  shows "move_snake snake_list direction food grid_size = Collision
       \<and> (\<forall>p. hits_wall p grid_size)
       \<and> (\<forall>p. \<not> inside p grid_size)"
proof -
  have wall: "hits_wall p grid_size" for p
    using assms(2) by (cases p) (auto simp: hits_wall_def)
  then have "\<not> inside p grid_size" for p
    by (simp add: hits_wall_inside [symmetric])
  then show ?thesis
    using wall by (simp add: move_snake_hd [OF assms(1)])
qed

theorem move_snake_empty_grid_witness:
  "[PyTuple 0 0, PyTuple 0 1] \<noteq> []
   \<and> (0::int) \<le> 0
   \<and> move_snake [PyTuple 0 0, PyTuple 0 1] ''RIGHT'' (PyTuple 5 3) 0 = Collision
   \<and> move_snake [PyTuple 0 0, PyTuple 0 1] ''DOWN'' (PyTuple 5 3) 0 = Collision"
  using move_snake_empty_grid [of "[PyTuple 0 0, PyTuple 0 1]" 0 "''RIGHT''" "PyTuple 5 3"]
    move_snake_empty_grid [of "[PyTuple 0 0, PyTuple 0 1]" 0 "''DOWN''" "PyTuple 5 3"]
  by simp

section \<open>The body invariant\<close>

lemma cells_Cons: "cells (p # body) = coords p # cells body"
  by (simp add: cells_def)

lemma cells_butlast: "cells (butlast body) = butlast (cells body)"
  by (simp add: cells_def map_butlast)

lemma hd_cells: "body \<noteq> [] \<Longrightarrow> hd (cells body) = coords (hd body)"
  by (simp add: cells_def hd_map)

text \<open>
  When every position of the body is a list, a move keeps the body free of duplicate
  positions and keeps its consecutive positions one unit step apart.
\<close>

lemma body_invariant_when_lists:
  assumes "snake_list \<noteq> []"
    and "\<forall>p\<in>set snake_list. is_list p"
    and "distinct (cells snake_list)"
    and "unit_steps (cells snake_list)"
    and "direction \<in> directions"
    and "move_snake snake_list direction food grid_size = Moved body a"
  shows "distinct (cells body) \<and> unit_steps (cells body)"
proof -
  define c where "c = advance direction (coords (hd snake_list))"
  have ne: "cells snake_list \<noteq> []"
    using assms(1) by (simp add: cells_def)
  have adj: "adjacent c (hd (cells snake_list))"
    unfolding c_def hd_cells [OF assms(1)] using assms(5) by (rule advance_adjacent)
  have res: "(if hits_wall c grid_size \<or> as_list c \<in> set snake_list then Collision
              else if c = coords food then Moved (as_list c # snake_list) True
              else Moved (as_list c # butlast snake_list) False) = Moved body a"
    unfolding c_def using assms(6)
    by (simp only: move_snake_hd [OF assms(1)] Let_def)
  then have "as_list c \<notin> set snake_list"
    by (auto split: if_splits)
  then have fresh: "c \<notin> set (cells snake_list)"
    using cells_member_as_list [OF assms(2)] by blast
  show ?thesis
  proof (cases "c = coords food")
    case True
    with res have "body = as_list c # snake_list"
      by (auto split: if_splits)
    then have "cells body = c # cells snake_list"
      by (simp add: cells_Cons coords_as_list)
    then show ?thesis
      using fresh adj ne assms(3,4) by (simp add: unit_steps_Cons)
  next
    case False
    with res have "body = as_list c # butlast snake_list"
      by (auto split: if_splits)
    then have body: "cells body = c # butlast (cells snake_list)"
      by (simp add: cells_Cons cells_butlast coords_as_list)
    have "c \<notin> set (butlast (cells snake_list))"
      using fresh by (auto dest: in_set_butlastD)
    moreover have "distinct (butlast (cells snake_list))"
      using assms(3) by (rule distinct_butlast)
    moreover have "unit_steps (c # butlast (cells snake_list))"
      using ne adj assms(4) by (rule unit_steps_Cons_butlast)
    ultimately show ?thesis
      by (simp add: body)
  qed
qed

text \<open>
  C6. The claim: for a non-empty body without duplicate positions whose consecutive
  positions are each one unit step apart, and a direction among UP, DOWN, LEFT and RIGHT,
  whenever the function returns a dictionary, the body in it has no duplicate positions
  and its consecutive positions are each one unit step apart. The function keeps this
  when the positions of the body are lists (\<open>body_invariant_when_lists\<close>). With
  tuples the self test of line 19 never fires: on the body
  \<open>(5,5), (5,6), (4,6), (4,5), (3,5)\<close>, which has no duplicate and only unit steps,
  moving LEFT the function returns a body that holds the position \<open>(4,5)\<close> twice.
\<close>

theorem move_snake_body_invariant_broken_on_tuples:
  "distinct (cells [PyTuple 5 5, PyTuple 5 6, PyTuple 4 6, PyTuple 4 5, PyTuple 3 5])
   \<and> unit_steps (cells [PyTuple 5 5, PyTuple 5 6, PyTuple 4 6, PyTuple 4 5, PyTuple 3 5])
   \<and> ''LEFT'' \<in> directions
   \<and> move_snake [PyTuple 5 5, PyTuple 5 6, PyTuple 4 6, PyTuple 4 5, PyTuple 3 5]
         ''LEFT'' (PyTuple 9 9) 20
       = Moved [PyList 4 5, PyTuple 5 5, PyTuple 5 6, PyTuple 4 6, PyTuple 4 5] False
   \<and> \<not> distinct (cells [PyList 4 5, PyTuple 5 5, PyTuple 5 6, PyTuple 4 6, PyTuple 4 5])"
  by (simp add: move_snake_Cons advance_def hits_wall_def cells_def directions_def
      adjacent_def)

section \<open>Purity\<close>

text \<open>
  C7. The function is deterministic and pure. On the store of list objects: a call
  leaves every list object that existed before it as it was, the caller's snake
  included; the outcome it returns, read in the store it leaves, is the value
  \<open>move_snake\<close> gives for the contents of the arguments alone, whatever else the store
  holds; and a second call with the same arguments, made in the store the first one
  left, returns an identical outcome and does not disturb the first one.
\<close>

theorem move_snake_pure_deterministic:
  assumes "snake_ref < length h"
    and "move_snake_heap h snake_ref direction food grid_size = (h1, r1)"
    and "move_snake_heap h1 snake_ref direction food grid_size = (h2, r2)"
  shows "deref h1 r1 = move_snake (h ! snake_ref) direction food grid_size
       \<and> deref h2 r2 = deref h1 r1
       \<and> deref h2 r1 = deref h1 r1
       \<and> (\<forall>b<length h. h1 ! b = h ! b \<and> h2 ! b = h ! b)"
proof -
  have f1: "take (length h) h1 = h"
    using assms(2) by (rule move_snake_heap_frame)
  have f2: "take (length h1) h2 = h1"
    using assms(3) by (rule move_snake_heap_frame)
  have old1: "h1 ! b = h ! b" if "b < length h" for b
    using f1 that by (rule take_nth_eq)
  have len: "length h \<le> length h1"
    using f1 by (metis length_take min.cobounded1)
  have old2: "h2 ! b = h ! b" if "b < length h" for b
  proof -
    have "b < length h1"
      using that len by simp
    with f2 have "h2 ! b = h1 ! b"
      by (rule take_nth_eq)
    then show ?thesis
      using old1 [OF that] by simp
  qed
  have v1: "deref h1 r1 = move_snake (h ! snake_ref) direction food grid_size"
    using assms(2) by (rule move_snake_heap_value)
  have "deref h2 r2 = move_snake (h1 ! snake_ref) direction food grid_size"
    using assms(3) by (rule move_snake_heap_value)
  then have v2: "deref h2 r2 = deref h1 r1"
    using v1 old1 [OF assms(1)] by simp
  have keep: "deref h2 r1 = deref h1 r1"
    using f2
  proof (rule deref_frame)
    fix b flag
    assume "r1 = Inr (Some (b, flag))"
    with assms(2) show "b < length h1"
      by (simp add: move_snake_heap_ref_valid)
  qed
  show ?thesis
    using v1 v2 keep old1 old2 by simp
qed

theorem move_snake_pure_deterministic_witness:
  "(0::nat) < length [[PyTuple 5 5, PyTuple 5 6, PyTuple 5 7]]
   \<and> move_snake_heap [[PyTuple 5 5, PyTuple 5 6, PyTuple 5 7]] 0 ''UP'' (PyTuple 5 3) 20
       = ([[PyTuple 5 5, PyTuple 5 6, PyTuple 5 7], [PyTuple 5 5, PyTuple 5 6, PyTuple 5 7],
           [PyList 5 4, PyTuple 5 5, PyTuple 5 6]],
          Inr (Some (2, False)))
   \<and> move_snake_heap
         [[PyTuple 5 5, PyTuple 5 6, PyTuple 5 7], [PyTuple 5 5, PyTuple 5 6, PyTuple 5 7],
          [PyList 5 4, PyTuple 5 5, PyTuple 5 6]]
         0 ''UP'' (PyTuple 5 3) 20
       = ([[PyTuple 5 5, PyTuple 5 6, PyTuple 5 7], [PyTuple 5 5, PyTuple 5 6, PyTuple 5 7],
           [PyList 5 4, PyTuple 5 5, PyTuple 5 6],
           [PyTuple 5 5, PyTuple 5 6, PyTuple 5 7], [PyList 5 4, PyTuple 5 5, PyTuple 5 6]],
          Inr (Some (4, False)))
   \<and> deref [[PyTuple 5 5, PyTuple 5 6, PyTuple 5 7], [PyTuple 5 5, PyTuple 5 6, PyTuple 5 7],
            [PyList 5 4, PyTuple 5 5, PyTuple 5 6],
            [PyTuple 5 5, PyTuple 5 6, PyTuple 5 7], [PyList 5 4, PyTuple 5 5, PyTuple 5 6]]
           (Inr (Some (4, False)))
       = Moved [PyList 5 4, PyTuple 5 5, PyTuple 5 6] False
   \<and> deref [[PyTuple 5 5, PyTuple 5 6, PyTuple 5 7], [PyTuple 5 5, PyTuple 5 6, PyTuple 5 7],
            [PyList 5 4, PyTuple 5 5, PyTuple 5 6]]
           (Inr (Some (2, False)))
       = Moved [PyList 5 4, PyTuple 5 5, PyTuple 5 6] False"
  using move_snake_pure_deterministic
    [of 0 "[[PyTuple 5 5, PyTuple 5 6, PyTuple 5 7]]" "''UP''" "PyTuple 5 3" 20
        "[[PyTuple 5 5, PyTuple 5 6, PyTuple 5 7], [PyTuple 5 5, PyTuple 5 6, PyTuple 5 7],
          [PyList 5 4, PyTuple 5 5, PyTuple 5 6]]"
        "Inr (Some (2, False))"
        "[[PyTuple 5 5, PyTuple 5 6, PyTuple 5 7], [PyTuple 5 5, PyTuple 5 6, PyTuple 5 7],
          [PyList 5 4, PyTuple 5 5, PyTuple 5 6],
          [PyTuple 5 5, PyTuple 5 6, PyTuple 5 7], [PyList 5 4, PyTuple 5 5, PyTuple 5 6]]"
        "Inr (Some (4, False))"]
  by (simp add: move_snake_heap_eq advance_def hits_wall_def Let_def)

end
